theory Spec2Isabelle
  imports Complex_Main
begin

section \<open>The projection engine of the rent-versus-buy calculator\<close>

text \<open>
  The engine is the function \<open>calculate\<close> of the calculator module. This theory embeds it
  in HOL and proves properties of it.

  Numbers. The source computes with JavaScript numbers, which are IEEE doubles. Here a
  currency or rate value is a \<open>real\<close> and arithmetic is exact: rounding, infinities and
  NaN are not part of this model. The two inputs that count things, \<open>loanTermYears\<close> and
  \<open>yearsToAnalyze\<close>, are integers (\<open>int\<close>, so zero and negative values are inputs too),
  and the loop counter \<open>year\<close> is a natural number. \<open>Math.pow\<close> with the integer exponent
  \<open>numPayments\<close> is \<open>power_int\<close> (a negative exponent gives the reciprocal power, as in the
  source); with the loop counter as exponent it is \<open>^\<close>.

  Where the doubles matter. A division by zero is \<open>0\<close> in HOL, and an infinity or NaN in
  the source; a power that is too large is an infinity in the source; and a positive
  monthly rate below \<open>2^-52\<close> is lost in the sum \<open>1 + monthlyRate\<close>. The theorems that
  divide, bound or compare amounts (the payment, the balance, the cumulative costs, the
  investment accounts not being negative) are therefore stated for \<open>valid_loan\<close> or
  \<open>valid_inputs\<close>, the ranges of the data model closed above by the maxima of the caller's
  sliders, on which the run of the source stays finite and far from these cases.
  Where the rounding itself decides a property (the balance at the month of the last
  payment), the assignments to the balance are modelled a second time, in the arithmetic of
  the source: every operation followed by the rounding to the nearest double.
\<close>

subsection \<open>Data model\<close>

record Inputs =
  homePrice :: real
  downPaymentPct :: real
  mortgageRate :: real
  loanTermYears :: int
  propertyTaxRate :: real
  homeInsurance :: real
  maintenancePct :: real
  hoaMonthly :: real
  homeAppreciation :: real
  monthlyRent :: real
  rentIncrease :: real
  investmentReturn :: real
  yearsToAnalyze :: int

record YearlySnapshot =
  year :: nat
  cumulativeBuyCost :: real
  cumulativeRentCost :: real
  cumulativeTrueBuyCost :: real
  buyNetWorth :: real
  rentNetWorth :: real

datatype Recommendation = Buy | Rent | Neutral

record CalculationResult =
  monthlyMortgage :: real
  monthlyBuyTotal :: real
  monthlyRentTotal :: real
  breakevenYear :: "nat option"
  yearlyData :: "YearlySnapshot list"
  totalBuyCost :: real
  totalRentCost :: real
  buyNetWorthFinal :: real
  rentNetWorthFinal :: real
  recommendation :: Recommendation
  downPayment :: real

text \<open>
  Reading a property of \<open>undefined\<close> throws a \<open>TypeError\<close>: the only way \<open>calculate\<close>
  can fail.
\<close>

datatype error = TypeError

subsection \<open>Derived constants\<close>

text \<open>
  The constants computed before the loop. Three of them share their name with a field of
  the result and carry the suffix \<open>_c\<close>.
\<close>

definition downPayment_c :: "Inputs \<Rightarrow> real" where
  "downPayment_c i = homePrice i * (downPaymentPct i / 100)"

definition loanAmount :: "Inputs \<Rightarrow> real" where
  "loanAmount i = homePrice i - downPayment_c i"

definition monthlyRate :: "Inputs \<Rightarrow> real" where
  "monthlyRate i = mortgageRate i / 100 / 12"

definition numPayments :: "Inputs \<Rightarrow> int" where
  "numPayments i = loanTermYears i * 12"

definition monthlyMortgage_c :: "Inputs \<Rightarrow> real" where
  "monthlyMortgage_c i =
     (if monthlyRate i = 0
      then loanAmount i / of_int (numPayments i)
      else (loanAmount i * (monthlyRate i * power_int (1 + monthlyRate i) (numPayments i))) /
           (power_int (1 + monthlyRate i) (numPayments i) - 1))"

definition monthlyPropertyTax :: "Inputs \<Rightarrow> real" where
  "monthlyPropertyTax i = (homePrice i * (propertyTaxRate i / 100)) / 12"

definition monthlyInsurance :: "Inputs \<Rightarrow> real" where
  "monthlyInsurance i = homeInsurance i / 12"

definition monthlyMaintenance :: "Inputs \<Rightarrow> real" where
  "monthlyMaintenance i = (homePrice i * (maintenancePct i / 100)) / 12"

definition monthlyBuyTotal_c :: "Inputs \<Rightarrow> real" where
  "monthlyBuyTotal_c i =
     monthlyMortgage_c i + monthlyPropertyTax i + monthlyInsurance i +
     monthlyMaintenance i + hoaMonthly i"

definition annualAppreciation :: "Inputs \<Rightarrow> real" where
  "annualAppreciation i = homeAppreciation i / 100"

definition annualInvestment :: "Inputs \<Rightarrow> real" where
  "annualInvestment i = investmentReturn i / 100"

definition annualRentIncrease :: "Inputs \<Rightarrow> real" where
  "annualRentIncrease i = rentIncrease i / 100"

subsection \<open>The simulation state\<close>

text \<open>
  The variables the loop assigns. Those that share their name with a field of the snapshot
  or of the result carry the suffix \<open>_st\<close>.
\<close>

record LoopState =
  cumulativeBuyCost_st :: real
  cumulativeRentCost_st :: real
  cumulativeTrueBuyCost_st :: real
  remainingBalance :: real
  currentHomeValue :: real
  currentRent :: real
  rentSavings :: real
  buySavings :: real
  breakevenYear_st :: "nat option"
  yearlyData_st :: "YearlySnapshot list"

definition init_state :: "Inputs \<Rightarrow> LoopState" where
  "init_state i =
     \<lparr> cumulativeBuyCost_st = downPayment_c i,
       cumulativeRentCost_st = 0,
       cumulativeTrueBuyCost_st = 0,
       remainingBalance = loanAmount i,
       currentHomeValue = homePrice i,
       currentRent = monthlyRent i,
       rentSavings = 0,
       buySavings = 0,
       breakevenYear_st = None,
       yearlyData_st = [] \<rparr>"

subsection \<open>One month\<close>

definition interestPayment :: "Inputs \<Rightarrow> LoopState \<Rightarrow> real" where
  "interestPayment i s = remainingBalance s * monthlyRate i"

definition principalPayment :: "Inputs \<Rightarrow> LoopState \<Rightarrow> real" where
  "principalPayment i s = monthlyMortgage_c i - interestPayment i s"

definition totalMonthlyBuy :: "Inputs \<Rightarrow> LoopState \<Rightarrow> real" where
  "totalMonthlyBuy i s =
     monthlyMortgage_c i + monthlyPropertyTax i + monthlyInsurance i +
     (currentHomeValue s * (maintenancePct i / 100)) / 12 + hoaMonthly i"

definition totalMonthlyRent :: "LoopState \<Rightarrow> real" where
  "totalMonthlyRent s = currentRent s"

definition trueMonthlyCost :: "Inputs \<Rightarrow> LoopState \<Rightarrow> real" where
  "trueMonthlyCost i s =
     interestPayment i s + monthlyPropertyTax i + monthlyInsurance i +
     (currentHomeValue s * (maintenancePct i / 100)) / 12 + hoaMonthly i"

definition diff :: "Inputs \<Rightarrow> LoopState \<Rightarrow> real" where
  "diff i s = totalMonthlyBuy i s - totalMonthlyRent s"

text \<open>
  The body of the inner loop. Every right-hand side reads the state \<open>s\<close> at the start of
  the month: the interest is computed before the balance is updated, and the other
  assignments do not read a variable the body has already changed.
\<close>

definition month_step :: "Inputs \<Rightarrow> LoopState \<Rightarrow> LoopState" where
  "month_step i s =
     s \<lparr> remainingBalance := max 0 (remainingBalance s - principalPayment i s),
         cumulativeBuyCost_st := cumulativeBuyCost_st s + totalMonthlyBuy i s,
         cumulativeRentCost_st := cumulativeRentCost_st s + totalMonthlyRent s,
         cumulativeTrueBuyCost_st := cumulativeTrueBuyCost_st s + trueMonthlyCost i s,
         rentSavings :=
           (if diff i s > 0
            then rentSavings s + diff i s * (1 + annualInvestment i / 12)
            else rentSavings s),
         buySavings :=
           (if diff i s > 0
            then buySavings s
            else buySavings s + (- diff i s) * (1 + annualInvestment i / 12)) \<rparr>"

function month_loop :: "Inputs \<Rightarrow> nat \<Rightarrow> LoopState \<Rightarrow> LoopState" where
  "month_loop i month s =
     (if month < 12 then month_loop i (Suc month) (month_step i s) else s)"
  by pat_completeness auto
termination
  by (relation "measure (\<lambda>(i, month, s). 12 - month)") auto

declare month_loop.simps [simp del]

subsection \<open>One year\<close>

text \<open>The growth of the home value, the rent and the two investment accounts.\<close>

definition grow :: "Inputs \<Rightarrow> LoopState \<Rightarrow> LoopState" where
  "grow i s =
     s \<lparr> currentHomeValue := currentHomeValue s * (1 + annualAppreciation i),
         currentRent := currentRent s * (1 + annualRentIncrease i),
         rentSavings := rentSavings s * (1 + annualInvestment i),
         buySavings := buySavings s * (1 + annualInvestment i) \<rparr>"

definition closingCostsSell :: "LoopState \<Rightarrow> real" where
  "closingCostsSell s = currentHomeValue s * 0.06"

definition homeEquity :: "LoopState \<Rightarrow> real" where
  "homeEquity s = currentHomeValue s - remainingBalance s - closingCostsSell s"

definition investedDownPayment :: "Inputs \<Rightarrow> nat \<Rightarrow> real" where
  "investedDownPayment i yr = downPayment_c i * (1 + annualInvestment i) ^ yr"

text \<open>
  The two net worths the source computes and never reads; the snapshot does not hold
  them.
\<close>

definition buyNetWorth_c :: "Inputs \<Rightarrow> nat \<Rightarrow> LoopState \<Rightarrow> real" where
  "buyNetWorth_c i yr s =
     homeEquity s + buySavings s - downPayment_c i * (1 + annualInvestment i) ^ yr"

definition rentNetWorth_c :: "Inputs \<Rightarrow> nat \<Rightarrow> LoopState \<Rightarrow> real" where
  "rentNetWorth_c i yr s = investedDownPayment i yr + rentSavings s - downPayment_c i"

text \<open>The record pushed at the end of a year, from the state after the growth.\<close>

definition snapshot :: "Inputs \<Rightarrow> nat \<Rightarrow> LoopState \<Rightarrow> YearlySnapshot" where
  "snapshot i yr s =
     \<lparr> year = yr,
       cumulativeBuyCost = cumulativeBuyCost_st s,
       cumulativeRentCost = cumulativeRentCost_st s,
       cumulativeTrueBuyCost = cumulativeTrueBuyCost_st s,
       buyNetWorth = homeEquity s,
       rentNetWorth = investedDownPayment i yr + rentSavings s \<rparr>"

text \<open>
  The end of a year, after the twelve months: the growth, the snapshot and the breakeven
  test.
\<close>

definition year_end :: "Inputs \<Rightarrow> nat \<Rightarrow> LoopState \<Rightarrow> LoopState" where
  "year_end i yr s1 =
     (let s2 = grow i s1;
          s3 = s2 \<lparr> yearlyData_st := yearlyData_st s2 @ [snapshot i yr s2] \<rparr>
      in if breakevenYear_st s3 = None \<and>
            homeEquity s3 > investedDownPayment i yr + rentSavings s3
         then s3 \<lparr> breakevenYear_st := Some yr \<rparr>
         else s3)"

definition year_body :: "Inputs \<Rightarrow> nat \<Rightarrow> LoopState \<Rightarrow> LoopState" where
  "year_body i yr s = year_end i yr (month_loop i 0 s)"

function year_loop :: "Inputs \<Rightarrow> nat \<Rightarrow> LoopState \<Rightarrow> LoopState" where
  "year_loop i yr s =
     (if int yr \<le> yearsToAnalyze i then year_loop i (Suc yr) (year_body i yr s) else s)"
  by pat_completeness auto
termination
  by (relation "measure (\<lambda>(i, yr, s). nat (yearsToAnalyze i + 1 - int yr))") auto

declare year_loop.simps [simp del]

definition simulate :: "Inputs \<Rightarrow> LoopState" where
  "simulate i = year_loop i 1 (init_state i)"

subsection \<open>The summary\<close>

text \<open>
  \<open>finalData\<close> is the last snapshot. On an empty sequence it is \<open>undefined\<close>, and reading
  \<open>finalData.buyNetWorth\<close> throws.
\<close>

definition calculate :: "Inputs \<Rightarrow> error + CalculationResult" where
  "calculate i =
     (let s = simulate i in
      case yearlyData_st s of
        [] \<Rightarrow> Inl TypeError
      | _ # _ \<Rightarrow>
          (let finalData = last (yearlyData_st s);
               buyBetter = (buyNetWorth finalData > rentNetWorth finalData)
           in Inr \<lparr> monthlyMortgage = monthlyMortgage_c i,
                    monthlyBuyTotal = monthlyBuyTotal_c i,
                    monthlyRentTotal = monthlyRent i,
                    breakevenYear = breakevenYear_st s,
                    yearlyData = yearlyData_st s,
                    totalBuyCost = cumulativeBuyCost_st s,
                    totalRentCost = cumulativeRentCost_st s,
                    buyNetWorthFinal = buyNetWorth finalData,
                    rentNetWorthFinal = rentNetWorth finalData,
                    recommendation = (if buyBetter then Buy else Rent),
                    downPayment = downPayment_c i \<rparr>))"

subsection \<open>Observing the run\<close>

text \<open>The state at the end of year \<open>k\<close>; year \<open>0\<close> is the state before the loop.\<close>

primrec state_after :: "Inputs \<Rightarrow> nat \<Rightarrow> LoopState" where
  "state_after i 0 = init_state i"
| "state_after i (Suc k) = year_body i (Suc k) (state_after i k)"

text \<open>
  The state after \<open>t\<close> months of the simulation, the two loops flattened: every
  twelfth month is followed by the end of its year.
\<close>

primrec month_state :: "Inputs \<Rightarrow> nat \<Rightarrow> LoopState" where
  "month_state i 0 = init_state i"
| "month_state i (Suc t) =
     (let s = month_step i (month_state i t)
      in if Suc t mod 12 = 0 then year_end i (Suc t div 12) s else s)"

text \<open>
  The balance of the loan without the floor at \<open>0\<close>: the recurrence of the month step
  with the \<open>max\<close> left out.
\<close>

primrec unfloored :: "Inputs \<Rightarrow> nat \<Rightarrow> real" where
  "unfloored i 0 = loanAmount i"
| "unfloored i (Suc t) =
     unfloored i t - (monthlyMortgage_c i - unfloored i t * monthlyRate i)"



text \<open>
  The inputs of the data model, within the maxima of the sliders of the caller: the home
  price up to 2000000, the mortgage rate up to 12 percent, the loan term up to 30 years,
  and so on. A home price of \<open>0\<close> (no home, no loan) is kept as the degenerate case; a
  home price below one currency unit and a positive mortgage rate below one step of the
  rate slider (0.05) are left out.
\<close>

definition valid_loan :: "Inputs \<Rightarrow> bool" where
  "valid_loan i \<longleftrightarrow>
     (homePrice i = 0 \<or> 1 \<le> homePrice i) \<and> homePrice i \<le> 2000000 \<and>
     0 \<le> downPaymentPct i \<and> downPaymentPct i \<le> 100 \<and>
     (mortgageRate i = 0 \<or> 0.05 \<le> mortgageRate i) \<and> mortgageRate i \<le> 12 \<and>
     1 \<le> loanTermYears i \<and> loanTermYears i \<le> 30"


subsection \<open>The balance in the arithmetic of the source\<close>

text \<open>
  A double is \<open>m * 2^e\<close> with an integer mantissa \<open>m\<close> of at most 53 bits and an exponent
  \<open>e\<close> from \<open>-1074\<close> to \<open>970\<close>. The result of \<open>+\<close>, \<open>-\<close>, \<open>*\<close> and \<open>/\<close> on doubles is the
  exact result rounded to the nearest double, ties to the even mantissa, as IEEE 754 and
  the language of the source prescribe: that is \<open>rnd\<close>.

  \<open>binade n e x\<close> looks for the exponent of \<open>x\<close>, the least from \<open>e\<close> on with
  \<open>\<bar>x\<bar> < 2^53 * 2^e\<close>, in at most \<open>n\<close> steps; from \<open>-1074\<close> with 2044 steps it reaches
  every exponent of a double, and a subnormal \<open>x\<close> is rounded on the grid of \<open>2^-1074\<close>.
  \<open>rne\<close> rounds to the nearest integer, ties to the even one. Beyond the largest double
  the source has \<open>Infinity\<close>; \<open>rnd\<close> has not, and is for runs that stay finite.
\<close>

fun binade :: "nat \<Rightarrow> int \<Rightarrow> real \<Rightarrow> int" where
  "binade 0 e x = e"
| "binade (Suc n) e x =
     (if \<bar>x\<bar> < 2 ^ 53 * power_int 2 e then e else binade n (e + 1) x)"

definition rne :: "real \<Rightarrow> int" where
  "rne q =
     (let f = \<lfloor>q\<rfloor>; r = q - of_int f
      in if r < 1 / 2 then f
         else if 1 / 2 < r then f + 1
         else if even f then f else f + 1)"

definition rnd :: "real \<Rightarrow> real" where
  "rnd x =
     (let e = binade 2044 (- 1074) x
      in of_int (rne (x / power_int 2 e)) * power_int 2 e)"







subsection \<open>Example inputs\<close>

text \<open>
  A loan of 600 on a home of 1200, without interest, over one year; the rent is 10 a
  month and the horizon one year.
\<close>

definition example_one_year :: Inputs where
  "example_one_year =
     \<lparr> homePrice = 1200, downPaymentPct = 50, mortgageRate = 0, loanTermYears = 1,
       propertyTaxRate = 0, homeInsurance = 0, maintenancePct = 0, hoaMonthly = 0,
       homeAppreciation = 0, monthlyRent = 10, rentIncrease = 0, investmentReturn = 0,
       yearsToAnalyze = 1 \<rparr>"

text \<open>The same with a horizon of zero years.\<close>

definition example_no_year :: Inputs where
  "example_no_year = example_one_year \<lparr> yearsToAnalyze := 0 \<rparr>"


text \<open>The same as the first with a rent of 100 a month, above the cost of owning.\<close>

definition example_high_rent :: Inputs where
  "example_high_rent = example_one_year \<lparr> monthlyRent := 100 \<rparr>"

text \<open>A home without a price: no down payment and no loan.\<close>

definition example_no_price :: Inputs where
  "example_no_price = example_one_year \<lparr> homePrice := 0 \<rparr>"

text \<open>
  The first example and the one with the high rent, with an investment return of 12
  percent a year: a factor of 1.01 on a contribution and of 1.12 at the end of a year.
\<close>

definition example_invested :: Inputs where
  "example_invested = example_one_year \<lparr> investmentReturn := 12 \<rparr>"

definition example_high_rent_invested :: Inputs where
  "example_high_rent_invested = example_high_rent \<lparr> investmentReturn := 12 \<rparr>"

text \<open>
  The defaults of the caller: a home of 420000 with 13 percent down, a loan at 6.9 percent
  over 30 years, a rent of 1850 a month and a horizon of 10 years.
\<close>

definition example_baseline :: Inputs where
  "example_baseline =
     \<lparr> homePrice = 420000, downPaymentPct = 13, mortgageRate = 6.9, loanTermYears = 30,
       propertyTaxRate = 1.1, homeInsurance = 2200, maintenancePct = 1, hoaMonthly = 0,
       homeAppreciation = 4, monthlyRent = 1850, rentIncrease = 3.5, investmentReturn = 7,
       yearsToAnalyze = 10 \<rparr>"


text \<open>
  A home of 200000 with half of it as down payment and a loan without interest over one
  year, the other inputs as in the defaults.
\<close>

definition example_rounding :: Inputs where
  "example_rounding =
     example_baseline \<lparr> homePrice := 200000, downPaymentPct := 50, mortgageRate := 0,
       loanTermYears := 1, yearsToAnalyze := 1 \<rparr>"

section \<open>Properties\<close>

subsection \<open>The loops unrolled\<close>

lemma month_loop_funpow_aux:
  "d + month = 12 \<Longrightarrow> month_loop i month s = (month_step i ^^ d) s"
proof (induction d arbitrary: month s)
  case 0
  then show ?case by (subst month_loop.simps) simp
next
  case (Suc d)
  then have "month < 12" and "d + Suc month = 12" by simp_all
  with Suc.IH[of "Suc month" "month_step i s"] show ?case
    by (subst month_loop.simps) (simp only: if_True funpow_Suc_right o_apply)
qed

lemma month_loop_funpow: "month_loop i 0 s = (month_step i ^^ 12) s"
  by (rule month_loop_funpow_aux) simp

lemma year_loop_state_after:
  "d + k = nat (yearsToAnalyze i) \<Longrightarrow> int k \<le> yearsToAnalyze i \<Longrightarrow>
   year_loop i (Suc k) (state_after i k) = state_after i (nat (yearsToAnalyze i))"
proof (induction d arbitrary: k)
  case 0
  then have "\<not> int (Suc k) \<le> yearsToAnalyze i" by simp
  with 0 show ?case by (subst year_loop.simps) simp
next
  case (Suc d)
  then have lt: "int (Suc k) \<le> yearsToAnalyze i" and "d + Suc k = nat (yearsToAnalyze i)"
    by linarith+
  with Suc.IH[of "Suc k"] show ?case
    by (subst year_loop.simps) (simp only: if_True state_after.simps)
qed

lemma simulate_state_after: "simulate i = state_after i (nat (yearsToAnalyze i))"
proof (cases "0 \<le> yearsToAnalyze i")
  case True
  then show ?thesis
    using year_loop_state_after[of "nat (yearsToAnalyze i)" 0 i] by (simp add: simulate_def)
next
  case False
  then have "nat (yearsToAnalyze i) = 0" by simp
  moreover have "year_loop i 1 (init_state i) = init_state i"
    using False by (subst year_loop.simps) simp
  ultimately show ?thesis by (simp add: simulate_def)
qed

lemma month_state_within_year:
  "j < 12 \<Longrightarrow> month_state i (12 * y + j) = (month_step i ^^ j) (month_state i (12 * y))"
proof (induction j)
  case 0
  show ?case by simp
next
  case (Suc j)
  then have "Suc (12 * y + j) mod 12 \<noteq> 0"
    by (metis Suc_eq_plus1 add.assoc mod_mult_self4 mod_less less_numeral_extra(3) add.commute Suc_neq_Zero mult.commute)
  with Suc show ?case by (simp add: Let_def)
qed

lemma month_state_year_end:
  "month_state i (12 * Suc y) =
   year_end i (Suc y) ((month_step i ^^ 12) (month_state i (12 * y)))"
proof -
  have e: "12 * Suc y = Suc (12 * y + 11)" by simp
  have m: "Suc (12 * y + 11) mod 12 = 0" and d: "Suc (12 * y + 11) div 12 = Suc y"
    by presburger+
  have "(month_step i ^^ 12) (month_state i (12 * y)) =
        month_step i ((month_step i ^^ 11) (month_state i (12 * y)))"
    by (simp add: numeral_eq_Suc)
  then show ?thesis
    unfolding e month_state.simps m d Let_def
    by (simp add: month_state_within_year[of 11, simplified])
qed

lemma state_after_month_state: "state_after i y = month_state i (12 * y)"
proof (induction y)
  case 0
  show ?case by simp
next
  case (Suc y)
  then show ?case
    by (simp only: state_after.simps year_body_def month_loop_funpow month_state_year_end)
qed

lemma simulate_month_state: "simulate i = month_state i (12 * nat (yearsToAnalyze i))"
  by (simp only: simulate_state_after state_after_month_state)

subsection \<open>What each step leaves alone\<close>

lemma year_end_fields [simp]:
  "remainingBalance (year_end i yr s) = remainingBalance s"
  "cumulativeBuyCost_st (year_end i yr s) = cumulativeBuyCost_st s"
  "cumulativeRentCost_st (year_end i yr s) = cumulativeRentCost_st s"
  "cumulativeTrueBuyCost_st (year_end i yr s) = cumulativeTrueBuyCost_st s"
  "currentHomeValue (year_end i yr s) = currentHomeValue s * (1 + annualAppreciation i)"
  "currentRent (year_end i yr s) = currentRent s * (1 + annualRentIncrease i)"
  "rentSavings (year_end i yr s) = rentSavings s * (1 + annualInvestment i)"
  "buySavings (year_end i yr s) = buySavings s * (1 + annualInvestment i)"
  "yearlyData_st (year_end i yr s) = yearlyData_st s @ [snapshot i yr (grow i s)]"
  by (simp_all add: year_end_def grow_def Let_def)

lemma month_step_fields [simp]:
  "currentHomeValue (month_step i s) = currentHomeValue s"
  "currentRent (month_step i s) = currentRent s"
  "breakevenYear_st (month_step i s) = breakevenYear_st s"
  "yearlyData_st (month_step i s) = yearlyData_st s"
  by (simp_all add: month_step_def)

lemma month_steps_yearlyData [simp]:
  "yearlyData_st ((month_step i ^^ n) s) = yearlyData_st s"
  by (induction n) simp_all

lemma month_steps_breakevenYear [simp]:
  "breakevenYear_st ((month_step i ^^ n) s) = breakevenYear_st s"
  by (induction n) simp_all

text \<open>
  The snapshot of a year reads the numeric fields only, so it is the same on the state
  after the growth and on the state at the end of the year.
\<close>

lemma snapshot_year_end [simp]: "snapshot i k (year_end i yr s) = snapshot i k (grow i s)"
  by (simp add: snapshot_def homeEquity_def closingCostsSell_def grow_def)

lemma state_after_Suc:
  "state_after i (Suc k) = year_end i (Suc k) ((month_step i ^^ 12) (state_after i k))"
  by (simp add: year_body_def month_loop_funpow)

lemma yearlyData_state_after:
  "yearlyData_st (state_after i y) = map (\<lambda>k. snapshot i k (state_after i k)) [1..<Suc y]"
proof (induction y)
  case 0
  show ?case by (simp add: init_state_def)
next
  case (Suc y)
  have "yearlyData_st (state_after i (Suc y)) =
        yearlyData_st (state_after i y) @ [snapshot i (Suc y) (state_after i (Suc y))]"
    by (simp only: state_after_Suc year_end_fields month_steps_yearlyData snapshot_year_end)
  with Suc show ?case by simp
qed

lemma length_yearlyData_simulate:
  "length (yearlyData_st (simulate i)) = nat (yearsToAnalyze i)"
  by (simp add: simulate_state_after yearlyData_state_after)

lemma nth_yearlyData_simulate:
  assumes "1 \<le> k" and "int k \<le> yearsToAnalyze i"
  shows "yearlyData_st (simulate i) ! (k - 1) = snapshot i k (state_after i k)"
proof -
  let ?n = "nat (yearsToAnalyze i)"
  from assms have lt: "k - 1 < ?n" by linarith
  then have "1 + (k - 1) < Suc ?n" by simp
  then have "[1..<Suc ?n] ! (k - 1) = 1 + (k - 1)" by (rule nth_upt)
  with assms(1) have "[1..<Suc ?n] ! (k - 1) = k" by simp
  moreover from lt have "k - 1 < length [1..<Suc ?n]" by simp
  ultimately have
    "map (\<lambda>k. snapshot i k (state_after i k)) [1..<Suc ?n] ! (k - 1) =
     snapshot i k (state_after i k)"
    by (simp only: nth_map)
  then show ?thesis
    by (simp only: simulate_state_after yearlyData_state_after)
qed

text \<open>The result of a run that pushed a snapshot.\<close>

lemma calculate_Inr:
  "1 \<le> yearsToAnalyze i \<Longrightarrow>
   calculate i = Inr
     \<lparr> monthlyMortgage = monthlyMortgage_c i,
       monthlyBuyTotal = monthlyBuyTotal_c i,
       monthlyRentTotal = monthlyRent i,
       breakevenYear = breakevenYear_st (simulate i),
       yearlyData = yearlyData_st (simulate i),
       totalBuyCost = cumulativeBuyCost_st (simulate i),
       totalRentCost = cumulativeRentCost_st (simulate i),
       buyNetWorthFinal = buyNetWorth (last (yearlyData_st (simulate i))),
       rentNetWorthFinal = rentNetWorth (last (yearlyData_st (simulate i))),
       recommendation =
         (if buyNetWorth (last (yearlyData_st (simulate i))) >
             rentNetWorth (last (yearlyData_st (simulate i)))
          then Buy else Rent),
       downPayment = downPayment_c i \<rparr>"
proof -
  assume "1 \<le> yearsToAnalyze i"
  then have "length (yearlyData_st (simulate i)) \<noteq> 0"
    by (simp add: length_yearlyData_simulate)
  then obtain x xs where "yearlyData_st (simulate i) = x # xs"
    by (cases "yearlyData_st (simulate i)") auto
  then show ?thesis by (simp add: calculate_def Let_def)
qed

lemma calculate_Inl:
  "yearsToAnalyze i \<le> 0 \<Longrightarrow> calculate i = Inl TypeError"
proof -
  assume "yearsToAnalyze i \<le> 0"
  then have "length (yearlyData_st (simulate i)) = 0"
    by (simp add: length_yearlyData_simulate)
  then show ?thesis by (simp add: calculate_def Let_def)
qed

lemma calculate_Inr_iff: "(\<exists>r. calculate i = Inr r) \<longleftrightarrow> 1 \<le> yearsToAnalyze i"
proof
  assume "\<exists>r. calculate i = Inr r"
  then show "1 \<le> yearsToAnalyze i"
    using calculate_Inl[of i] by (cases "1 \<le> yearsToAnalyze i") auto
next
  assume "1 \<le> yearsToAnalyze i"
  then show "\<exists>r. calculate i = Inr r" by (simp add: calculate_Inr)
qed

subsection \<open>Two runs by hand\<close>

text \<open>
  The run of \<open>example_one_year\<close>: each month costs the buyer 50 and the renter 10, and the
  difference of 40 goes to \<open>rentSavings\<close>. The year ends with a home equity of 1128 against
  1080 for the renter.
\<close>

lemma example_one_year_constants:
  "monthlyMortgage_c example_one_year = 50"
  "monthlyBuyTotal_c example_one_year = 50"
  "downPayment_c example_one_year = 600"
  "loanAmount example_one_year = 600"
  "monthlyRate example_one_year = 0"
  "monthlyPropertyTax example_one_year = 0"
  "monthlyInsurance example_one_year = 0"
  "hoaMonthly example_one_year = 0"
  "maintenancePct example_one_year = 0"
  "annualInvestment example_one_year = 0"
  "annualAppreciation example_one_year = 0"
  "annualRentIncrease example_one_year = 0"
  "monthlyRent example_one_year = 10"
  "homePrice example_one_year = 1200"
  by (simp_all add: monthlyMortgage_c_def monthlyBuyTotal_c_def downPayment_c_def
      loanAmount_def monthlyRate_def numPayments_def monthlyPropertyTax_def
      monthlyInsurance_def monthlyMaintenance_def annualInvestment_def
      annualAppreciation_def annualRentIncrease_def example_one_year_def)

lemma example_one_year_month:
  "month_step example_one_year
     \<lparr> cumulativeBuyCost_st = a, cumulativeRentCost_st = b, cumulativeTrueBuyCost_st = c,
       remainingBalance = d, currentHomeValue = e, currentRent = 10, rentSavings = g,
       buySavings = h, breakevenYear_st = bk, yearlyData_st = yd \<rparr> =
     \<lparr> cumulativeBuyCost_st = a + 50, cumulativeRentCost_st = b + 10,
       cumulativeTrueBuyCost_st = c, remainingBalance = max 0 (d - 50),
       currentHomeValue = e, currentRent = 10, rentSavings = g + 40, buySavings = h,
       breakevenYear_st = bk, yearlyData_st = yd \<rparr>"
  by (simp add: month_step_def principalPayment_def interestPayment_def totalMonthlyBuy_def
      totalMonthlyRent_def trueMonthlyCost_def diff_def example_one_year_constants)

lemma example_one_year_months:
  "(month_step example_one_year ^^ 12) (init_state example_one_year) =
     \<lparr> cumulativeBuyCost_st = 1200, cumulativeRentCost_st = 120,
       cumulativeTrueBuyCost_st = 0, remainingBalance = 0,
       currentHomeValue = 1200, currentRent = 10, rentSavings = 480, buySavings = 0,
       breakevenYear_st = None, yearlyData_st = [] \<rparr>"
  by (simp add: init_state_def example_one_year_constants eval_nat_numeral
      example_one_year_month)

lemma example_one_year_run:
  "simulate example_one_year =
     \<lparr> cumulativeBuyCost_st = 1200, cumulativeRentCost_st = 120,
       cumulativeTrueBuyCost_st = 0, remainingBalance = 0,
       currentHomeValue = 1200, currentRent = 10, rentSavings = 480, buySavings = 0,
       breakevenYear_st = Some 1,
       yearlyData_st =
         [\<lparr> year = 1, cumulativeBuyCost = 1200, cumulativeRentCost = 120,
            cumulativeTrueBuyCost = 0, buyNetWorth = 1128, rentNetWorth = 1080 \<rparr>] \<rparr>"
proof -
  have "nat (yearsToAnalyze example_one_year) = Suc 0"
    by (simp add: example_one_year_def)
  then have "simulate example_one_year =
      year_end example_one_year 1
        ((month_step example_one_year ^^ 12) (init_state example_one_year))"
    by (simp add: simulate_state_after year_body_def month_loop_funpow)
  then show ?thesis
    by (simp add: example_one_year_months year_end_def grow_def snapshot_def homeEquity_def
        closingCostsSell_def investedDownPayment_def example_one_year_constants Let_def)
qed

lemma example_one_year_result:
  "calculate example_one_year = Inr
     \<lparr> monthlyMortgage = 50, monthlyBuyTotal = 50, monthlyRentTotal = 10,
       breakevenYear = Some 1,
       yearlyData =
         [\<lparr> year = 1, cumulativeBuyCost = 1200, cumulativeRentCost = 120,
            cumulativeTrueBuyCost = 0, buyNetWorth = 1128, rentNetWorth = 1080 \<rparr>],
       totalBuyCost = 1200, totalRentCost = 120,
       buyNetWorthFinal = 1128, rentNetWorthFinal = 1080,
       recommendation = Buy, downPayment = 600 \<rparr>"
  by (simp add: calculate_def example_one_year_run example_one_year_constants)

text \<open>
  The run of \<open>example_no_price\<close>: the buyer pays nothing, the rent of 10 goes to
  \<open>buySavings\<close>, and the year ends with both net worths at 0.
\<close>

lemma example_no_price_constants:
  "monthlyMortgage_c example_no_price = 0"
  "monthlyBuyTotal_c example_no_price = 0"
  "downPayment_c example_no_price = 0"
  "loanAmount example_no_price = 0"
  "monthlyRate example_no_price = 0"
  "monthlyPropertyTax example_no_price = 0"
  "monthlyInsurance example_no_price = 0"
  "hoaMonthly example_no_price = 0"
  "maintenancePct example_no_price = 0"
  "annualInvestment example_no_price = 0"
  "annualAppreciation example_no_price = 0"
  "annualRentIncrease example_no_price = 0"
  "monthlyRent example_no_price = 10"
  "homePrice example_no_price = 0"
  by (simp_all add: monthlyMortgage_c_def monthlyBuyTotal_c_def downPayment_c_def
      loanAmount_def monthlyRate_def numPayments_def monthlyPropertyTax_def
      monthlyInsurance_def monthlyMaintenance_def annualInvestment_def
      annualAppreciation_def annualRentIncrease_def example_no_price_def
      example_one_year_def)

lemma example_no_price_month:
  "month_step example_no_price
     \<lparr> cumulativeBuyCost_st = a, cumulativeRentCost_st = b, cumulativeTrueBuyCost_st = c,
       remainingBalance = 0, currentHomeValue = e, currentRent = 10, rentSavings = g,
       buySavings = h, breakevenYear_st = bk, yearlyData_st = yd \<rparr> =
     \<lparr> cumulativeBuyCost_st = a, cumulativeRentCost_st = b + 10,
       cumulativeTrueBuyCost_st = c, remainingBalance = 0,
       currentHomeValue = e, currentRent = 10, rentSavings = g, buySavings = h + 10,
       breakevenYear_st = bk, yearlyData_st = yd \<rparr>"
  by (simp add: month_step_def principalPayment_def interestPayment_def totalMonthlyBuy_def
      totalMonthlyRent_def trueMonthlyCost_def diff_def example_no_price_constants)

lemma example_no_price_months:
  "(month_step example_no_price ^^ 12) (init_state example_no_price) =
     \<lparr> cumulativeBuyCost_st = 0, cumulativeRentCost_st = 120,
       cumulativeTrueBuyCost_st = 0, remainingBalance = 0,
       currentHomeValue = 0, currentRent = 10, rentSavings = 0, buySavings = 120,
       breakevenYear_st = None, yearlyData_st = [] \<rparr>"
  by (simp add: init_state_def example_no_price_constants eval_nat_numeral
      example_no_price_month)

lemma example_no_price_run:
  "simulate example_no_price =
     \<lparr> cumulativeBuyCost_st = 0, cumulativeRentCost_st = 120,
       cumulativeTrueBuyCost_st = 0, remainingBalance = 0,
       currentHomeValue = 0, currentRent = 10, rentSavings = 0, buySavings = 120,
       breakevenYear_st = None,
       yearlyData_st =
         [\<lparr> year = 1, cumulativeBuyCost = 0, cumulativeRentCost = 120,
            cumulativeTrueBuyCost = 0, buyNetWorth = 0, rentNetWorth = 0 \<rparr>] \<rparr>"
proof -
  have "nat (yearsToAnalyze example_no_price) = Suc 0"
    by (simp add: example_no_price_def example_one_year_def)
  then have "simulate example_no_price =
      year_end example_no_price 1
        ((month_step example_no_price ^^ 12) (init_state example_no_price))"
    by (simp add: simulate_state_after year_body_def month_loop_funpow)
  then show ?thesis
    by (simp add: example_no_price_months year_end_def grow_def snapshot_def homeEquity_def
        closingCostsSell_def investedDownPayment_def example_no_price_constants Let_def)
qed

lemma example_no_price_result:
  "calculate example_no_price = Inr
     \<lparr> monthlyMortgage = 0, monthlyBuyTotal = 0, monthlyRentTotal = 10,
       breakevenYear = None,
       yearlyData =
         [\<lparr> year = 1, cumulativeBuyCost = 0, cumulativeRentCost = 120,
            cumulativeTrueBuyCost = 0, buyNetWorth = 0, rentNetWorth = 0 \<rparr>],
       totalBuyCost = 0, totalRentCost = 120,
       buyNetWorthFinal = 0, rentNetWorthFinal = 0,
       recommendation = Rent, downPayment = 0 \<rparr>"
  by (simp add: calculate_def example_no_price_run example_no_price_constants)

subsection \<open>The recommendation\<close>

text \<open>
  C1. For every input with \<open>yearsToAnalyze \<ge> 1\<close>, \<open>calculate\<close> returns a result whose
  recommendation is \<open>Buy\<close> exactly when the last snapshot's \<open>buyNetWorth\<close> is strictly
  greater than its \<open>rentNetWorth\<close>, and \<open>Rent\<close> otherwise, ties included; no input makes it
  return \<open>Neutral\<close>.
\<close>

theorem calculate_recommendation:
  "(1 \<le> yearsToAnalyze i \<longrightarrow>
      (\<exists>r. calculate i = Inr r \<and>
         (recommendation r = Buy \<longleftrightarrow>
            rentNetWorth (last (yearlyData r)) < buyNetWorth (last (yearlyData r))) \<and>
         (recommendation r = Rent \<longleftrightarrow>
            buyNetWorth (last (yearlyData r)) \<le> rentNetWorth (last (yearlyData r))))) \<and>
   (\<forall>r. calculate i = Inr r \<longrightarrow> recommendation r \<noteq> Neutral)"
proof (intro conjI impI allI)
  assume "1 \<le> yearsToAnalyze i"
  then show "\<exists>r. calculate i = Inr r \<and>
         (recommendation r = Buy \<longleftrightarrow>
            rentNetWorth (last (yearlyData r)) < buyNetWorth (last (yearlyData r))) \<and>
         (recommendation r = Rent \<longleftrightarrow>
            buyNetWorth (last (yearlyData r)) \<le> rentNetWorth (last (yearlyData r)))"
    by (simp add: calculate_Inr)
next
  fix r
  assume r: "calculate i = Inr r"
  then have "1 \<le> yearsToAnalyze i" using calculate_Inr_iff[of i] by blast
  from calculate_Inr[OF this] r show "recommendation r \<noteq> Neutral" by auto
qed

text \<open>The first example is a strict win of buying, the second a tie.\<close>

theorem calculate_recommendation_witness:
  "(1 \<le> yearsToAnalyze example_one_year \<and>
      (\<exists>r. calculate example_one_year = Inr r \<and> recommendation r = Buy \<and>
         rentNetWorth (last (yearlyData r)) < buyNetWorth (last (yearlyData r)))) \<and>
   (1 \<le> yearsToAnalyze example_no_price \<and>
      (\<exists>r. calculate example_no_price = Inr r \<and> recommendation r = Rent \<and>
         buyNetWorth (last (yearlyData r)) = rentNetWorth (last (yearlyData r))))"
proof -
  have y: "1 \<le> yearsToAnalyze example_one_year" "1 \<le> yearsToAnalyze example_no_price"
    by (simp_all add: example_one_year_def example_no_price_def)
  from calculate_recommendation [of example_one_year] y(1)
  have "\<exists>r. calculate example_one_year = Inr r \<and> recommendation r = Buy \<and>
         rentNetWorth (last (yearlyData r)) < buyNetWorth (last (yearlyData r))"
    by (simp add: example_one_year_result)
  moreover from calculate_recommendation [of example_no_price] y(2)
  have "\<exists>r. calculate example_no_price = Inr r \<and> recommendation r = Rent \<and>
         buyNetWorth (last (yearlyData r)) = rentNetWorth (last (yearlyData r))"
    by (simp add: example_no_price_result)
  ultimately show ?thesis using y by blast
qed

subsection \<open>The length of the sequence\<close>

text \<open>
  C8. For a horizon \<open>yearsToAnalyze \<ge> 1\<close>, \<open>calculate\<close> returns a result, and its
  \<open>yearlyData\<close> has \<open>yearsToAnalyze\<close> snapshots whose \<open>year\<close> fields are
  \<open>1, 2, \<dots>, yearsToAnalyze\<close> in this order. For the horizon \<open>0\<close> the sequence is empty
  and \<open>calculate\<close> throws on reading the last element, with no result.
\<close>

theorem calculate_horizon:
  "(1 \<le> yearsToAnalyze i \<longrightarrow>
      (\<exists>r. calculate i = Inr r \<and>
         int (length (yearlyData r)) = yearsToAnalyze i \<and>
         map year (yearlyData r) = [1..<Suc (nat (yearsToAnalyze i))])) \<and>
   (yearsToAnalyze i = 0 \<longrightarrow>
      yearlyData_st (simulate i) = [] \<and> calculate i = Inl TypeError)"
proof (intro conjI impI)
  assume y: "1 \<le> yearsToAnalyze i"
  have "map year (yearlyData_st (simulate i)) = [1..<Suc (nat (yearsToAnalyze i))]"
    unfolding simulate_state_after yearlyData_state_after
    by (simp add: snapshot_def o_def del: upt_Suc)
  with y show "\<exists>r. calculate i = Inr r \<and>
         int (length (yearlyData r)) = yearsToAnalyze i \<and>
         map year (yearlyData r) = [1..<Suc (nat (yearsToAnalyze i))]"
    by (simp add: calculate_Inr length_yearlyData_simulate)
next
  assume "yearsToAnalyze i = 0"
  then show "yearlyData_st (simulate i) = []"
    using length_yearlyData_simulate[of i] by simp
next
  assume "yearsToAnalyze i = 0"
  then show "calculate i = Inl TypeError" by (simp add: calculate_Inl)
qed

theorem calculate_horizon_witness:
  "(1 \<le> yearsToAnalyze example_one_year \<and>
      (\<exists>r. calculate example_one_year = Inr r \<and> map year (yearlyData r) = [1])) \<and>
   (yearsToAnalyze example_no_year = 0 \<and>
      yearlyData_st (simulate example_no_year) = [] \<and>
      calculate example_no_year = Inl TypeError)"
  using calculate_horizon [of example_one_year] calculate_horizon [of example_no_year]
  by (auto simp: example_one_year_def example_no_year_def)

subsection \<open>The net worths of a snapshot\<close>

text \<open>
  C2. For every year \<open>k\<close> in \<open>1..yearsToAnalyze\<close>, the snapshot of year \<open>k\<close> holds as
  \<open>buyNetWorth\<close> the home equity \<open>currentHomeValue - remainingBalance - 0.06 * currentHomeValue\<close>
  of the state at the end of the year, and as \<open>rentNetWorth\<close> the value
  \<open>downPayment * (1 + investmentReturn/100)^k + rentSavings\<close>. Neither is the composite the
  loop computes beside it: the first lacks the buy-side savings and the compounded down
  payment, the second is not reduced by the down payment.
\<close>

theorem snapshot_net_worths:
  assumes "1 \<le> k" and "int k \<le> yearsToAnalyze i"
  shows "\<exists>r. calculate i = Inr r \<and>
    (let snap = yearlyData r ! (k - 1); s = state_after i k in
       year snap = k \<and>
       buyNetWorth snap =
         currentHomeValue s - remainingBalance s - 0.06 * currentHomeValue s \<and>
       rentNetWorth snap =
         downPayment r * (1 + investmentReturn i / 100) ^ k + rentSavings s \<and>
       buyNetWorth snap =
         buyNetWorth_c i k s - buySavings s +
         downPayment r * (1 + investmentReturn i / 100) ^ k \<and>
       rentNetWorth snap = rentNetWorth_c i k s + downPayment r)"
proof -
  from assms have y: "1 \<le> yearsToAnalyze i" by linarith
  have snap: "yearlyData_st (simulate i) ! (k - 1) = snapshot i k (state_after i k)"
    using assms by (rule nth_yearlyData_simulate)
  show ?thesis
    unfolding calculate_Inr[OF y]
    by (simp add: Let_def snap [simplified] snapshot_def homeEquity_def closingCostsSell_def
        investedDownPayment_def annualInvestment_def buyNetWorth_c_def rentNetWorth_c_def)
qed

theorem snapshot_net_worths_witness:
  "1 \<le> (1::nat) \<and> int 1 \<le> yearsToAnalyze example_one_year \<and>
   currentHomeValue (state_after example_one_year 1) = 1200 \<and>
   remainingBalance (state_after example_one_year 1) = 0 \<and>
   rentSavings (state_after example_one_year 1) = 480 \<and>
   (\<exists>r. calculate example_one_year = Inr r \<and> downPayment r = 600 \<and>
      buyNetWorth (yearlyData r ! 0) = 1200 - 0 - 0.06 * 1200 \<and>
      rentNetWorth (yearlyData r ! 0) = 600 * (1 + 0 / 100) ^ 1 + 480)"
proof -
  have y: "int 1 \<le> yearsToAnalyze example_one_year"
    by (simp add: example_one_year_def)
  have "state_after example_one_year 1 = simulate example_one_year"
    by (simp add: simulate_state_after example_one_year_def)
  then have s: "currentHomeValue (state_after example_one_year 1) = 1200"
    "remainingBalance (state_after example_one_year 1) = 0"
    "rentSavings (state_after example_one_year 1) = 480"
    by (simp_all add: example_one_year_run)
  from snapshot_net_worths [of 1 example_one_year, OF order_refl y]
  have "\<exists>r. calculate example_one_year = Inr r \<and> downPayment r = 600 \<and>
      buyNetWorth (yearlyData r ! 0) = 1200 - 0 - 0.06 * 1200 \<and>
      rentNetWorth (yearlyData r ! 0) = 600 * (1 + 0 / 100) ^ 1 + 480"
    by (simp add: example_one_year_result)
  with y s show ?thesis by simp
qed

subsection \<open>The breakeven year\<close>

lemma breakevenYear_year_end:
  "breakevenYear_st (year_end i yr s) =
     (if breakevenYear_st s = None \<and>
         rentNetWorth (snapshot i yr (grow i s)) < buyNetWorth (snapshot i yr (grow i s))
      then Some yr else breakevenYear_st s)"
  by (simp add: year_end_def Let_def snapshot_def homeEquity_def closingCostsSell_def
      grow_def)

lemma breakevenYear_state_after_Suc:
  "breakevenYear_st (state_after i (Suc y)) =
     (if breakevenYear_st (state_after i y) = None \<and>
         rentNetWorth (snapshot i (Suc y) (state_after i (Suc y))) <
         buyNetWorth (snapshot i (Suc y) (state_after i (Suc y)))
      then Some (Suc y) else breakevenYear_st (state_after i y))"
  by (simp only: state_after_Suc breakevenYear_year_end snapshot_year_end
      month_steps_breakevenYear)

text \<open>
  The invariant of the outer loop: the variable is empty as long as no year has crossed,
  and otherwise holds the first year that crossed.
\<close>

lemma breakevenYear_state_after:
  "(breakevenYear_st (state_after i y) = None \<longrightarrow>
      (\<forall>k. 1 \<le> k \<and> k \<le> y \<longrightarrow>
         \<not> rentNetWorth (snapshot i k (state_after i k)) <
           buyNetWorth (snapshot i k (state_after i k)))) \<and>
   (\<forall>k. breakevenYear_st (state_after i y) = Some k \<longrightarrow>
      1 \<le> k \<and> k \<le> y \<and>
      rentNetWorth (snapshot i k (state_after i k)) <
      buyNetWorth (snapshot i k (state_after i k)) \<and>
      (\<forall>j. 1 \<le> j \<and> j < k \<longrightarrow>
         \<not> rentNetWorth (snapshot i j (state_after i j)) <
           buyNetWorth (snapshot i j (state_after i j))))"
proof (induction y)
  case 0
  show ?case by (simp add: init_state_def)
next
  case (Suc y)
  show ?case
  proof (cases "breakevenYear_st (state_after i y)")
    case None
    with Suc have no: "\<forall>k. 1 \<le> k \<and> k \<le> y \<longrightarrow>
         \<not> rentNetWorth (snapshot i k (state_after i k)) <
           buyNetWorth (snapshot i k (state_after i k))"
      by blast
    show ?thesis
    proof (cases "rentNetWorth (snapshot i (Suc y) (state_after i (Suc y))) <
         buyNetWorth (snapshot i (Suc y) (state_after i (Suc y)))")
      case True
      with None have "breakevenYear_st (state_after i (Suc y)) = Some (Suc y)"
        by (simp only: breakevenYear_state_after_Suc) simp
      with True no show ?thesis by (auto simp: less_Suc_eq_le)
    next
      case False
      with None have "breakevenYear_st (state_after i (Suc y)) = None"
        by (simp only: breakevenYear_state_after_Suc) simp
      with False no show ?thesis by (auto simp: le_Suc_eq)
    qed
  next
    case (Some b)
    then have "breakevenYear_st (state_after i (Suc y)) = Some b"
      by (simp only: breakevenYear_state_after_Suc) simp
    with Some Suc show ?thesis by auto
  qed
qed

text \<open>
  C5. The result's \<open>breakevenYear\<close> is the least year \<open>k\<close> in \<open>1..yearsToAnalyze\<close> whose
  snapshot has \<open>buyNetWorth > rentNetWorth\<close>, and it is empty when the horizon has no such
  year. A year of the loop never changes a breakeven year that is set, whatever the net
  worths of that year are.
\<close>

theorem breakeven_first_crossing:
  "(1 \<le> yearsToAnalyze i \<longrightarrow>
      (\<exists>r. calculate i = Inr r \<and>
         (breakevenYear r = None \<longleftrightarrow>
            (\<forall>k. 1 \<le> k \<and> int k \<le> yearsToAnalyze i \<longrightarrow>
               \<not> rentNetWorth (yearlyData r ! (k - 1)) <
                 buyNetWorth (yearlyData r ! (k - 1)))) \<and>
         (\<forall>k. breakevenYear r = Some k \<longrightarrow>
            1 \<le> k \<and> int k \<le> yearsToAnalyze i \<and>
            rentNetWorth (yearlyData r ! (k - 1)) < buyNetWorth (yearlyData r ! (k - 1)) \<and>
            (\<forall>j. 1 \<le> j \<and> j < k \<longrightarrow>
               \<not> rentNetWorth (yearlyData r ! (j - 1)) <
                 buyNetWorth (yearlyData r ! (j - 1)))))) \<and>
   (\<forall>s yr k. breakevenYear_st s = Some k \<longrightarrow>
      breakevenYear_st (year_body i yr s) = Some k)"
proof (intro conjI impI allI)
  assume y: "1 \<le> yearsToAnalyze i"
  let ?n = "nat (yearsToAnalyze i)"
  let ?yd = "yearlyData_st (simulate i)"
  let ?c = "\<lambda>k. rentNetWorth (?yd ! (k - 1)) < buyNetWorth (?yd ! (k - 1))"
  have nth: "?yd ! (k - 1) = snapshot i k (state_after i k)"
    if "1 \<le> k" "k \<le> ?n" for k
    using that by (intro nth_yearlyData_simulate) linarith+
  have bk: "breakevenYear_st (simulate i) = breakevenYear_st (state_after i ?n)"
    by (simp only: simulate_state_after)
  note inv = breakevenYear_state_after [of i ?n]
  have none: "breakevenYear_st (simulate i) = None \<longleftrightarrow>
      (\<forall>k. 1 \<le> k \<and> int k \<le> yearsToAnalyze i \<longrightarrow> \<not> ?c k)"
  proof
    assume n: "breakevenYear_st (simulate i) = None"
    show "\<forall>k. 1 \<le> k \<and> int k \<le> yearsToAnalyze i \<longrightarrow> \<not> ?c k"
    proof (intro allI impI)
      fix k assume k: "1 \<le> k \<and> int k \<le> yearsToAnalyze i"
      then have k': "1 \<le> k" "k \<le> ?n" by linarith+
      from n bk have "breakevenYear_st (state_after i ?n) = None" by simp
      with inv k' have "\<not> rentNetWorth (snapshot i k (state_after i k)) <
           buyNetWorth (snapshot i k (state_after i k))"
        by blast
      then show "\<not> ?c k" unfolding nth [OF k'] .
    qed
  next
    assume a: "\<forall>k. 1 \<le> k \<and> int k \<le> yearsToAnalyze i \<longrightarrow> \<not> ?c k"
    show "breakevenYear_st (simulate i) = None"
    proof (cases "breakevenYear_st (simulate i)")
      case None
      then show ?thesis .
    next
      case (Some b)
      with bk have "breakevenYear_st (state_after i ?n) = Some b" by simp
      with inv have b: "1 \<le> b" "b \<le> ?n"
        and c: "rentNetWorth (snapshot i b (state_after i b)) <
                buyNetWorth (snapshot i b (state_after i b))"
        by blast+
      from b have "int b \<le> yearsToAnalyze i" by linarith
      with a b(1) have "\<not> ?c b" by blast
      moreover from c have "?c b" unfolding nth [OF b] .
      ultimately show ?thesis by contradiction
    qed
  qed
  have some: "1 \<le> k \<and> int k \<le> yearsToAnalyze i \<and> ?c k \<and>
      (\<forall>j. 1 \<le> j \<and> j < k \<longrightarrow> \<not> ?c j)"
    if s: "breakevenYear_st (simulate i) = Some k" for k
  proof -
    from bk s have "breakevenYear_st (state_after i ?n) = Some k" by simp
    with inv have k: "1 \<le> k" "k \<le> ?n"
      and c: "rentNetWorth (snapshot i k (state_after i k)) <
              buyNetWorth (snapshot i k (state_after i k))"
      and l: "\<forall>j. 1 \<le> j \<and> j < k \<longrightarrow>
         \<not> rentNetWorth (snapshot i j (state_after i j)) <
           buyNetWorth (snapshot i j (state_after i j))"
      by blast+
    have "\<not> ?c j" if j: "1 \<le> j \<and> j < k" for j
    proof -
      from j k have j': "1 \<le> j" "j \<le> ?n" by linarith+
      from l j have "\<not> rentNetWorth (snapshot i j (state_after i j)) <
           buyNetWorth (snapshot i j (state_after i j))"
        by blast
      then show ?thesis unfolding nth [OF j'] .
    qed
    moreover from c have "?c k" unfolding nth [OF k] .
    moreover from k have "int k \<le> yearsToAnalyze i" by linarith
    ultimately show ?thesis using k(1) by blast
  qed
  show "\<exists>r. calculate i = Inr r \<and>
         (breakevenYear r = None \<longleftrightarrow>
            (\<forall>k. 1 \<le> k \<and> int k \<le> yearsToAnalyze i \<longrightarrow>
               \<not> rentNetWorth (yearlyData r ! (k - 1)) <
                 buyNetWorth (yearlyData r ! (k - 1)))) \<and>
         (\<forall>k. breakevenYear r = Some k \<longrightarrow>
            1 \<le> k \<and> int k \<le> yearsToAnalyze i \<and>
            rentNetWorth (yearlyData r ! (k - 1)) < buyNetWorth (yearlyData r ! (k - 1)) \<and>
            (\<forall>j. 1 \<le> j \<and> j < k \<longrightarrow>
               \<not> rentNetWorth (yearlyData r ! (j - 1)) <
                 buyNetWorth (yearlyData r ! (j - 1))))"
    unfolding calculate_Inr [OF y] using none some by simp
next
  fix s :: LoopState and yr k
  assume "breakevenYear_st s = Some k"
  then show "breakevenYear_st (year_body i yr s) = Some k"
    by (simp add: year_body_def month_loop_funpow breakevenYear_year_end)
qed

text \<open>
  The first example crosses in its only year, the second never; a breakeven year of 1
  survives a second year.
\<close>

theorem breakeven_first_crossing_witness:
  "(1 \<le> yearsToAnalyze example_one_year \<and>
      (\<exists>r. calculate example_one_year = Inr r \<and> breakevenYear r = Some 1 \<and>
         rentNetWorth (yearlyData r ! 0) < buyNetWorth (yearlyData r ! 0))) \<and>
   (1 \<le> yearsToAnalyze example_no_price \<and>
      (\<exists>r. calculate example_no_price = Inr r \<and> breakevenYear r = None \<and>
         \<not> rentNetWorth (yearlyData r ! 0) < buyNetWorth (yearlyData r ! 0))) \<and>
   breakevenYear_st (simulate example_one_year) = Some 1 \<and>
   breakevenYear_st (year_body example_one_year 2 (simulate example_one_year)) = Some 1"
proof -
  have y: "1 \<le> yearsToAnalyze example_one_year" "1 \<le> yearsToAnalyze example_no_price"
    by (simp_all add: example_one_year_def example_no_price_def)
  have s: "breakevenYear_st (simulate example_one_year) = Some 1"
    by (simp add: example_one_year_run)
  from breakeven_first_crossing [of example_one_year] y(1)
  have "\<exists>r. calculate example_one_year = Inr r \<and> breakevenYear r = Some 1 \<and>
         rentNetWorth (yearlyData r ! 0) < buyNetWorth (yearlyData r ! 0)"
    by (simp add: example_one_year_result)
  moreover from breakeven_first_crossing [of example_no_price] y(2)
  have "\<exists>r. calculate example_no_price = Inr r \<and> breakevenYear r = None \<and>
         \<not> rentNetWorth (yearlyData r ! 0) < buyNetWorth (yearlyData r ! 0)"
    by (simp add: example_no_price_result)
  moreover from breakeven_first_crossing [of example_one_year] s
  have "breakevenYear_st (year_body example_one_year 2 (simulate example_one_year)) = Some 1"
    by blast
  ultimately show ?thesis using y s by blast
qed

subsection \<open>The remaining balance\<close>

lemma loanAmount_nonneg:
  "0 \<le> homePrice i \<Longrightarrow> downPaymentPct i \<le> 100 \<Longrightarrow> 0 \<le> loanAmount i"
proof -
  assume h: "0 \<le> homePrice i" and d: "downPaymentPct i \<le> 100"
  have "loanAmount i = homePrice i * (1 - downPaymentPct i / 100)"
    by (simp add: loanAmount_def downPayment_c_def algebra_simps)
  moreover from d have "0 \<le> 1 - downPaymentPct i / 100" by simp
  ultimately show ?thesis using h by simp
qed

lemma numPayments_nat:
  "1 \<le> loanTermYears i \<Longrightarrow> numPayments i = int (nat (numPayments i)) \<and> 0 < nat (numPayments i)"
  by (simp add: numPayments_def)

text \<open>
  The payment of a loan that is not negative covers the interest on the whole loan, so
  no principal payment is negative.
\<close>

lemma payment_covers_interest:
  assumes "0 \<le> mortgageRate i" and "1 \<le> loanTermYears i" and "0 \<le> loanAmount i"
  shows "loanAmount i * monthlyRate i \<le> monthlyMortgage_c i"
proof (cases "monthlyRate i = 0")
  case True
  from assms(2) have "0 < numPayments i" by (simp add: numPayments_def)
  with assms(3) True show ?thesis by (simp add: monthlyMortgage_c_def)
next
  case False
  let ?m = "monthlyRate i" and ?L = "loanAmount i"
  let ?n = "nat (numPayments i)"
  let ?q = "(1 + ?m) ^ ?n"
  from assms(1) False have m: "0 < ?m" by (simp add: monthlyRate_def)
  from numPayments_nat [OF assms(2)] have n: "numPayments i = int ?n" "0 < ?n" by simp_all
  from m n(2) have q: "1 < ?q" by simp
  have pw: "power_int (1 + ?m) (numPayments i) = ?q"
    by (subst n(1)) (rule power_int_of_nat)
  have mm: "monthlyMortgage_c i = ?L * (?m * ?q) / (?q - 1)"
    using False by (simp add: monthlyMortgage_c_def pw)
  from assms(3) m have "0 \<le> ?L * ?m" by simp
  then have "?L * ?m * (?q - 1) \<le> ?L * (?m * ?q)" by (simp add: algebra_simps)
  with q have "?L * ?m \<le> ?L * (?m * ?q) / (?q - 1)" by (simp add: pos_le_divide_eq)
  with mm show ?thesis by simp
qed

lemma monthlyRate_nonneg: "0 \<le> mortgageRate i \<Longrightarrow> 0 \<le> monthlyRate i"
  by (simp add: monthlyRate_def)

lemma payment_nonneg:
  assumes "0 \<le> mortgageRate i" and "1 \<le> loanTermYears i" and "0 \<le> loanAmount i"
  shows "0 \<le> monthlyMortgage_c i"
proof -
  from assms(1,3) have "0 \<le> loanAmount i * monthlyRate i"
    by (simp add: monthlyRate_def)
  with payment_covers_interest [OF assms] show ?thesis by simp
qed

lemma balance_month_step:
  "remainingBalance (month_step i s) =
     max 0 (remainingBalance s - (monthlyMortgage_c i - remainingBalance s * monthlyRate i))"
  by (simp add: month_step_def principalPayment_def interestPayment_def)

lemma balance_month_state_Suc:
  "remainingBalance (month_state i (Suc t)) = remainingBalance (month_step i (month_state i t))"
  by (simp add: Let_def)

declare month_state.simps(2) [simp del]

lemma balance_bounds:
  assumes "0 \<le> mortgageRate i" and "1 \<le> loanTermYears i" and "0 \<le> loanAmount i"
  shows "0 \<le> remainingBalance (month_state i t) \<and>
         remainingBalance (month_state i t) \<le> loanAmount i"
proof (induction t)
  case 0
  from assms(3) show ?case by (simp add: init_state_def)
next
  case (Suc t)
  let ?b = "remainingBalance (month_state i t)"
  from Suc monthlyRate_nonneg [OF assms(1)]
  have "?b * monthlyRate i \<le> loanAmount i * monthlyRate i"
    by (simp add: mult_right_mono)
  with payment_covers_interest [OF assms] have "?b * monthlyRate i \<le> monthlyMortgage_c i"
    by simp
  with Suc show ?case
    by (simp add: balance_month_state_Suc balance_month_step)
qed


text \<open>The balance is the balance without the floor, or \<open>0\<close> once that is negative.\<close>

lemma balance_le_unfloored:
  assumes "0 \<le> mortgageRate i" and "1 \<le> loanTermYears i" and "0 \<le> loanAmount i"
  shows "remainingBalance (month_state i t) \<le> max 0 (unfloored i t)"
proof (induction t)
  case 0
  show ?case by (simp add: init_state_def)
next
  case (Suc t)
  let ?b = "remainingBalance (month_state i t)" and ?u = "unfloored i t"
  let ?m = "monthlyRate i" and ?p = "monthlyMortgage_c i"
  have m: "0 \<le> ?m" by (rule monthlyRate_nonneg [OF assms(1)])
  have p: "0 \<le> ?p" by (rule payment_nonneg [OF assms])
  from balance_bounds [OF assms, of t] have b: "0 \<le> ?b" by simp
  show ?case
  proof (cases "0 \<le> ?u")
    case True
    with Suc have "?b \<le> ?u" by simp
    with m have "?b * (1 + ?m) \<le> ?u * (1 + ?m)" by (simp add: mult_right_mono)
    then have "?b - (?p - ?b * ?m) \<le> ?u - (?p - ?u * ?m)" by (simp add: algebra_simps)
    then show ?thesis
      by (simp add: balance_month_state_Suc balance_month_step)
  next
    case False
    with Suc b have "?b = 0" by simp
    with p show ?thesis
      by (simp add: balance_month_state_Suc balance_month_step)
  qed
qed

text \<open>The closed form of the balance without the floor, for the two branches of the payment.\<close>

lemma unfloored_zero_rate:
  assumes "monthlyRate i = 0"
  shows "unfloored i t = loanAmount i - of_nat t * monthlyMortgage_c i"
  using assms by (induction t) (simp_all add: algebra_simps)

lemma unfloored_interest:
  assumes "0 < monthlyRate i" and "1 \<le> loanTermYears i"
  shows "unfloored i t * ((1 + monthlyRate i) ^ nat (numPayments i) - 1) =
         loanAmount i * ((1 + monthlyRate i) ^ nat (numPayments i) - (1 + monthlyRate i) ^ t)"
proof -
  let ?m = "monthlyRate i" and ?L = "loanAmount i"
  let ?n = "nat (numPayments i)"
  let ?q = "(1 + ?m) ^ ?n"
  from numPayments_nat [OF assms(2)] have n: "numPayments i = int ?n" "0 < ?n" by simp_all
  from assms(1) n(2) have q: "1 < ?q" by simp
  have pw: "power_int (1 + ?m) (numPayments i) = ?q"
    by (subst n(1)) (rule power_int_of_nat)
  have "monthlyMortgage_c i = ?L * (?m * ?q) / (?q - 1)"
    using assms(1) by (simp add: monthlyMortgage_c_def pw)
  with q have mm: "monthlyMortgage_c i * (?q - 1) = ?L * (?m * ?q)" by simp
  show ?thesis
  proof (induction t)
    case 0
    show ?case by simp
  next
    case (Suc t)
    have "unfloored i (Suc t) * (?q - 1) =
          (1 + ?m) * (unfloored i t * (?q - 1)) - monthlyMortgage_c i * (?q - 1)"
      by (simp add: algebra_simps)
    also have "\<dots> = (1 + ?m) * (?L * (?q - (1 + ?m) ^ t)) - ?L * (?m * ?q)"
      by (simp only: Suc mm)
    also have "\<dots> = ?L * (?q - (1 + ?m) ^ Suc t)"
      by (simp add: algebra_simps)
    finally show ?case .
  qed
qed

lemma unfloored_paid_off:
  assumes "0 \<le> mortgageRate i" and "1 \<le> loanTermYears i" and "0 \<le> loanAmount i"
    and "numPayments i \<le> int t"
  shows "unfloored i t \<le> 0"
proof (cases "monthlyRate i = 0")
  case True
  let ?n = "nat (numPayments i)"
  from numPayments_nat [OF assms(2)] have n: "numPayments i = int ?n" "0 < ?n" by simp_all
  from assms(4) n have t: "?n \<le> t" by linarith
  have "monthlyMortgage_c i = loanAmount i / of_nat ?n"
    using True by (simp add: monthlyMortgage_c_def) (metis n(1) of_int_of_nat_eq)
  then have "unfloored i t = loanAmount i * (1 - of_nat t / of_nat ?n)"
    by (simp add: unfloored_zero_rate [OF True] algebra_simps)
  moreover from t n(2) have "(1::real) \<le> of_nat t / of_nat ?n" by simp
  ultimately show ?thesis using assms(3) by (simp add: mult_nonneg_nonpos)
next
  case False
  let ?m = "monthlyRate i"
  let ?n = "nat (numPayments i)"
  let ?q = "(1 + ?m) ^ ?n"
  from assms(1) False have m: "0 < ?m" by (simp add: monthlyRate_def)
  from numPayments_nat [OF assms(2)] have n: "numPayments i = int ?n" "0 < ?n" by simp_all
  from assms(4) n have t: "?n \<le> t" by linarith
  from m n(2) have q: "1 < ?q" by simp
  from t m have "?q \<le> (1 + ?m) ^ t" by (simp add: power_increasing)
  with assms(3) have "loanAmount i * (?q - (1 + ?m) ^ t) \<le> 0"
    by (simp add: mult_nonneg_nonpos)
  with unfloored_interest [OF m assms(2), of t] have "unfloored i t * (?q - 1) \<le> 0" by simp
  with q show ?thesis by (simp add: mult_le_0_iff)
qed

lemma balance_paid_off:
  assumes "0 \<le> mortgageRate i" and "1 \<le> loanTermYears i" and "0 \<le> loanAmount i"
    and "numPayments i \<le> int t"
  shows "remainingBalance (month_state i t) = 0"
proof -
  from unfloored_paid_off [OF assms] balance_le_unfloored [OF assms(1-3), of t]
  have "remainingBalance (month_state i t) \<le> 0" by simp
  with balance_bounds [OF assms(1-3), of t] show ?thesis by simp
qed

subsection \<open>Invariants of the flattened loop\<close>
















subsection \<open>The investment accounts are not negative\<close>





subsection \<open>Valid inputs\<close>

lemma valid_loan_bounds:
  assumes "valid_loan i"
  shows "0 \<le> homePrice i" and "0 \<le> downPaymentPct i" and "downPaymentPct i \<le> 100"
    and "0 \<le> mortgageRate i" and "1 \<le> loanTermYears i" and "0 \<le> loanAmount i"
proof -
  from assms show hp: "0 \<le> homePrice i" and "0 \<le> downPaymentPct i"
    and dp: "downPaymentPct i \<le> 100" and "1 \<le> loanTermYears i"
    by (auto simp: valid_loan_def)
  from assms have "mortgageRate i = 0 \<or> 0.05 \<le> mortgageRate i"
    by (simp add: valid_loan_def)
  then show "0 \<le> mortgageRate i" by auto
  from hp dp show "0 \<le> loanAmount i" by (rule loanAmount_nonneg)
qed





subsection \<open>The monthly payment\<close>



subsection \<open>The two investment accounts\<close>

text \<open>
  The first eleven months and the twelfth of \<open>example_invested\<close>, where every month costs
  the buyer 40 more than the rent, and of \<open>example_high_rent_invested\<close>, where it costs
  50 less.
\<close>

lemma example_invested_constants:
  "monthlyMortgage_c example_invested = 50"
  "downPayment_c example_invested = 600"
  "loanAmount example_invested = 600"
  "monthlyRate example_invested = 0"
  "monthlyPropertyTax example_invested = 0"
  "monthlyInsurance example_invested = 0"
  "hoaMonthly example_invested = 0"
  "maintenancePct example_invested = 0"
  "investmentReturn example_invested = 12"
  "annualInvestment example_invested = 12 / 100"
  "monthlyRent example_invested = 10"
  "homePrice example_invested = 1200"
  "yearsToAnalyze example_invested = 1"
  by (simp_all add: monthlyMortgage_c_def downPayment_c_def loanAmount_def monthlyRate_def
      numPayments_def monthlyPropertyTax_def monthlyInsurance_def annualInvestment_def
      example_invested_def example_one_year_def)

lemma example_invested_month:
  "month_step example_invested
     \<lparr> cumulativeBuyCost_st = a, cumulativeRentCost_st = b, cumulativeTrueBuyCost_st = c,
       remainingBalance = d, currentHomeValue = e, currentRent = 10, rentSavings = g,
       buySavings = h, breakevenYear_st = bk, yearlyData_st = yd \<rparr> =
     \<lparr> cumulativeBuyCost_st = a + 50, cumulativeRentCost_st = b + 10,
       cumulativeTrueBuyCost_st = c, remainingBalance = max 0 (d - 50),
       currentHomeValue = e, currentRent = 10, rentSavings = g + 202 / 5, buySavings = h,
       breakevenYear_st = bk, yearlyData_st = yd \<rparr>"
  by (simp add: month_step_def principalPayment_def interestPayment_def totalMonthlyBuy_def
      totalMonthlyRent_def trueMonthlyCost_def diff_def example_invested_constants)

lemma example_invested_eleven:
  "month_state example_invested 11 =
     \<lparr> cumulativeBuyCost_st = 1150, cumulativeRentCost_st = 110,
       cumulativeTrueBuyCost_st = 0, remainingBalance = 50,
       currentHomeValue = 1200, currentRent = 10, rentSavings = 2222 / 5, buySavings = 0,
       breakevenYear_st = None, yearlyData_st = [] \<rparr>"
proof -
  have "month_state example_invested (12 * 0 + 11) =
      (month_step example_invested ^^ 11) (month_state example_invested (12 * 0))"
    by (rule month_state_within_year) simp
  then show ?thesis
    by (simp add: init_state_def example_invested_constants eval_nat_numeral
        example_invested_month)
qed

lemma example_high_rent_invested_constants:
  "monthlyMortgage_c example_high_rent_invested = 50"
  "downPayment_c example_high_rent_invested = 600"
  "loanAmount example_high_rent_invested = 600"
  "monthlyRate example_high_rent_invested = 0"
  "monthlyPropertyTax example_high_rent_invested = 0"
  "monthlyInsurance example_high_rent_invested = 0"
  "hoaMonthly example_high_rent_invested = 0"
  "maintenancePct example_high_rent_invested = 0"
  "investmentReturn example_high_rent_invested = 12"
  "annualInvestment example_high_rent_invested = 12 / 100"
  "monthlyRent example_high_rent_invested = 100"
  "homePrice example_high_rent_invested = 1200"
  "yearsToAnalyze example_high_rent_invested = 1"
  by (simp_all add: monthlyMortgage_c_def downPayment_c_def loanAmount_def monthlyRate_def
      numPayments_def monthlyPropertyTax_def monthlyInsurance_def annualInvestment_def
      example_high_rent_invested_def example_high_rent_def example_one_year_def)

lemma example_high_rent_invested_month:
  "month_step example_high_rent_invested
     \<lparr> cumulativeBuyCost_st = a, cumulativeRentCost_st = b, cumulativeTrueBuyCost_st = c,
       remainingBalance = d, currentHomeValue = e, currentRent = 100, rentSavings = g,
       buySavings = h, breakevenYear_st = bk, yearlyData_st = yd \<rparr> =
     \<lparr> cumulativeBuyCost_st = a + 50, cumulativeRentCost_st = b + 100,
       cumulativeTrueBuyCost_st = c, remainingBalance = max 0 (d - 50),
       currentHomeValue = e, currentRent = 100, rentSavings = g, buySavings = h + 101 / 2,
       breakevenYear_st = bk, yearlyData_st = yd \<rparr>"
  by (simp add: month_step_def principalPayment_def interestPayment_def totalMonthlyBuy_def
      totalMonthlyRent_def trueMonthlyCost_def diff_def example_high_rent_invested_constants)

lemma example_high_rent_invested_eleven:
  "month_state example_high_rent_invested 11 =
     \<lparr> cumulativeBuyCost_st = 1150, cumulativeRentCost_st = 1100,
       cumulativeTrueBuyCost_st = 0, remainingBalance = 50,
       currentHomeValue = 1200, currentRent = 100, rentSavings = 0, buySavings = 1111 / 2,
       breakevenYear_st = None, yearlyData_st = [] \<rparr>"
proof -
  have "month_state example_high_rent_invested (12 * 0 + 11) =
      (month_step example_high_rent_invested ^^ 11)
        (month_state example_high_rent_invested (12 * 0))"
    by (rule month_state_within_year) simp
  then show ?thesis
    by (simp add: init_state_def example_high_rent_invested_constants eval_nat_numeral
        example_high_rent_invested_month)
qed

text \<open>
  C6. Let \<open>s\<close> be the state of the run after \<open>t\<close> months and
  \<open>diff = totalMonthlyBuy - totalMonthlyRent\<close> the difference of month \<open>t + 1\<close>. If
  \<open>diff > 0\<close> the month adds \<open>diff * (1 + investmentReturn/100/12)\<close> to \<open>rentSavings\<close> and
  leaves \<open>buySavings\<close>; otherwise it adds \<open>(-diff) * (1 + investmentReturn/100/12)\<close> to
  \<open>buySavings\<close> and leaves \<open>rentSavings\<close>. After a month that does not end a year the run
  is in the state the month left; after the twelfth month of a year both accounts are
  multiplied once by \<open>1 + investmentReturn/100\<close>. The run of \<open>calculate\<close> is made of these
  months, and the snapshot of year \<open>k\<close> holds the \<open>rentSavings\<close> reached after \<open>12 * k\<close> of
  them, added to the compounded down payment.
\<close>

theorem two_layer_compounding:
  "(let s = month_state i t;
        d = totalMonthlyBuy i s - totalMonthlyRent s;
        f = 1 + investmentReturn i / 100 / 12
    in diff i s = d \<and>
       (0 < d \<longrightarrow>
          rentSavings (month_step i s) = rentSavings s + d * f \<and>
          buySavings (month_step i s) = buySavings s) \<and>
       (\<not> 0 < d \<longrightarrow>
          buySavings (month_step i s) = buySavings s + (- d) * f \<and>
          rentSavings (month_step i s) = rentSavings s) \<and>
       (Suc t mod 12 \<noteq> 0 \<longrightarrow> month_state i (Suc t) = month_step i s) \<and>
       (Suc t mod 12 = 0 \<longrightarrow>
          rentSavings (month_state i (Suc t)) =
            rentSavings (month_step i s) * (1 + investmentReturn i / 100) \<and>
          buySavings (month_state i (Suc t)) =
            buySavings (month_step i s) * (1 + investmentReturn i / 100))) \<and>
   simulate i = month_state i (12 * nat (yearsToAnalyze i)) \<and>
   (1 \<le> k \<and> int k \<le> yearsToAnalyze i \<longrightarrow>
      (\<exists>r. calculate i = Inr r \<and>
         rentNetWorth (yearlyData r ! (k - 1)) =
           downPayment r * (1 + investmentReturn i / 100) ^ k +
           rentSavings (month_state i (12 * k))))"
proof (intro conjI)
  show "let s = month_state i t;
        d = totalMonthlyBuy i s - totalMonthlyRent s;
        f = 1 + investmentReturn i / 100 / 12
    in diff i s = d \<and>
       (0 < d \<longrightarrow>
          rentSavings (month_step i s) = rentSavings s + d * f \<and>
          buySavings (month_step i s) = buySavings s) \<and>
       (\<not> 0 < d \<longrightarrow>
          buySavings (month_step i s) = buySavings s + (- d) * f \<and>
          rentSavings (month_step i s) = rentSavings s) \<and>
       (Suc t mod 12 \<noteq> 0 \<longrightarrow> month_state i (Suc t) = month_step i s) \<and>
       (Suc t mod 12 = 0 \<longrightarrow>
          rentSavings (month_state i (Suc t)) =
            rentSavings (month_step i s) * (1 + investmentReturn i / 100) \<and>
          buySavings (month_state i (Suc t)) =
            buySavings (month_step i s) * (1 + investmentReturn i / 100))"
    by (simp add: Let_def diff_def month_step_def annualInvestment_def month_state.simps(2)
        field_simps)
  show "simulate i = month_state i (12 * nat (yearsToAnalyze i))"
    by (rule simulate_month_state)
  show "1 \<le> k \<and> int k \<le> yearsToAnalyze i \<longrightarrow>
      (\<exists>r. calculate i = Inr r \<and>
         rentNetWorth (yearlyData r ! (k - 1)) =
           downPayment r * (1 + investmentReturn i / 100) ^ k +
           rentSavings (month_state i (12 * k)))"
  proof
    assume k: "1 \<le> k \<and> int k \<le> yearsToAnalyze i"
    then have k1: "1 \<le> k" and k2: "int k \<le> yearsToAnalyze i" by simp_all
    from k have y: "1 \<le> yearsToAnalyze i" by linarith
    have "yearlyData_st (simulate i) ! (k - 1) = snapshot i k (month_state i (12 * k))"
      by (simp only: nth_yearlyData_simulate [OF k1 k2] state_after_month_state)
    then show "\<exists>r. calculate i = Inr r \<and>
         rentNetWorth (yearlyData r ! (k - 1)) =
           downPayment r * (1 + investmentReturn i / 100) ^ k +
           rentSavings (month_state i (12 * k))"
      unfolding calculate_Inr [OF y]
      by (simp add: snapshot_def investedDownPayment_def annualInvestment_def)
  qed
qed

text \<open>
  With an investment return of 12 percent a contribution of 40 counts 40.4 and one of 50
  counts 50.5. In \<open>example_invested\<close> the renter holds 40.4 after the first month, 484.8
  after the twelfth and 542.976 after the end of the year, which the snapshot adds to
  the 672 of the compounded down payment. In \<open>example_high_rent_invested\<close> the buyer holds
  50.5, then 606, then 678.72.
\<close>

theorem two_layer_compounding_witness:
  "(0 < totalMonthlyBuy example_invested (month_state example_invested 0) -
         totalMonthlyRent (month_state example_invested 0) \<and>
      Suc 0 mod 12 \<noteq> (0::nat) \<and>
      rentSavings (month_state example_invested (Suc 0)) = 40.4 \<and>
      buySavings (month_state example_invested (Suc 0)) = 0 \<and>
      Suc 11 mod 12 = (0::nat) \<and>
      rentSavings (month_step example_invested (month_state example_invested 11)) = 484.8 \<and>
      rentSavings (month_state example_invested (Suc 11)) = 542.976 \<and>
      1 \<le> (1::nat) \<and> int 1 \<le> yearsToAnalyze example_invested \<and>
      (\<exists>r. calculate example_invested = Inr r \<and>
         rentNetWorth (yearlyData r ! 0) = 672 + 542.976)) \<and>
   (\<not> 0 < totalMonthlyBuy example_high_rent_invested
             (month_state example_high_rent_invested 0) -
           totalMonthlyRent (month_state example_high_rent_invested 0) \<and>
      buySavings (month_state example_high_rent_invested (Suc 0)) = 50.5 \<and>
      rentSavings (month_state example_high_rent_invested (Suc 0)) = 0 \<and>
      buySavings
        (month_step example_high_rent_invested
           (month_state example_high_rent_invested 11)) = 606 \<and>
      buySavings (month_state example_high_rent_invested (Suc 11)) = 678.72)"
proof -
  note c = example_invested_constants
  have d0: "totalMonthlyBuy example_invested (month_state example_invested 0) = 50"
    "totalMonthlyRent (month_state example_invested 0) = 10"
    by (simp_all add: totalMonthlyBuy_def totalMonthlyRent_def init_state_def c)
  have s0: "rentSavings (month_state example_invested 0) = 0"
    "buySavings (month_state example_invested 0) = 0"
    by (simp_all add: init_state_def)
  from two_layer_compounding [of example_invested 0 1] d0 s0
  have a1: "rentSavings (month_state example_invested (Suc 0)) = 40.4"
    "buySavings (month_state example_invested (Suc 0)) = 0"
    by (simp_all add: Let_def c)
  have d11: "totalMonthlyBuy example_invested (month_state example_invested 11) = 50"
    "totalMonthlyRent (month_state example_invested 11) = 10"
    by (simp_all add: totalMonthlyBuy_def totalMonthlyRent_def example_invested_eleven c)
  have s11: "rentSavings (month_state example_invested 11) = 2222 / 5"
    by (simp add: example_invested_eleven)
  from two_layer_compounding [of example_invested 11 1] d11 s11
  have a12: "rentSavings (month_step example_invested (month_state example_invested 11)) =
      484.8"
    and b12: "rentSavings (month_state example_invested (Suc 11)) = 542.976"
    by (simp_all add: Let_def c)
  have y: "1 \<le> (1::nat) \<and> int 1 \<le> yearsToAnalyze example_invested" by (simp add: c)
  have dp: "downPayment r = 600" if "calculate example_invested = Inr r" for r
    using that calculate_Inr [of example_invested] by (auto simp: c)
  from two_layer_compounding [of example_invested 11 1] y b12
  have r: "\<exists>r. calculate example_invested = Inr r \<and>
         rentNetWorth (yearlyData r ! 0) = 672 + 542.976"
    by (auto simp: c dp)
  note c' = example_high_rent_invested_constants
  have e0: "totalMonthlyBuy example_high_rent_invested
        (month_state example_high_rent_invested 0) = 50"
    "totalMonthlyRent (month_state example_high_rent_invested 0) = 100"
    by (simp_all add: totalMonthlyBuy_def totalMonthlyRent_def init_state_def c')
  have t0: "rentSavings (month_state example_high_rent_invested 0) = 0"
    "buySavings (month_state example_high_rent_invested 0) = 0"
    by (simp_all add: init_state_def)
  from two_layer_compounding [of example_high_rent_invested 0 1] e0 t0
  have h1: "buySavings (month_state example_high_rent_invested (Suc 0)) = 50.5"
    "rentSavings (month_state example_high_rent_invested (Suc 0)) = 0"
    by (simp_all add: Let_def c')
  have e11: "totalMonthlyBuy example_high_rent_invested
        (month_state example_high_rent_invested 11) = 50"
    "totalMonthlyRent (month_state example_high_rent_invested 11) = 100"
    by (simp_all add: totalMonthlyBuy_def totalMonthlyRent_def
        example_high_rent_invested_eleven c')
  have t11: "buySavings (month_state example_high_rent_invested 11) = 1111 / 2"
    by (simp add: example_high_rent_invested_eleven)
  from two_layer_compounding [of example_high_rent_invested 11 1] e11 t11
  have h12: "buySavings
        (month_step example_high_rent_invested
           (month_state example_high_rent_invested 11)) = 606"
    and g12: "buySavings (month_state example_high_rent_invested (Suc 11)) = 678.72"
    by (simp_all add: Let_def c')
  from d0 e0 a1 a12 b12 y r h1 h12 g12 show ?thesis by simp
qed

subsection \<open>Rounding to the nearest double\<close>




lemma rnd_zero [simp]: "rnd 0 = 0"
  by (simp add: rnd_def rne_def)






text \<open>In exact arithmetic the same twelve months end with the balance \<open>0\<close>.\<close>

lemma example_rounding_exact:
  "remainingBalance (month_state example_rounding 12) = 0"
proof -
  have "valid_loan example_rounding"
    by (simp add: valid_loan_def example_rounding_def example_baseline_def)
  then have "0 \<le> mortgageRate example_rounding" "1 \<le> loanTermYears example_rounding"
    "0 \<le> loanAmount example_rounding"
    by (simp_all add: valid_loan_bounds)
  moreover have "numPayments example_rounding \<le> int 12"
    by (simp add: numPayments_def example_rounding_def)
  ultimately show ?thesis by (rule balance_paid_off)
qed

subsection \<open>The balance over the run\<close>




subsection \<open>The true cost and the cash cost of buying\<close>



subsection \<open>The cumulative costs along the snapshots\<close>



subsection \<open>The investment accounts along the run\<close>



end
